theory Spec2Isabelle
  imports Complex_Main "HOL-Library.Sublist"
begin

section \<open>Tokens and the operator table\<close>

text \<open>
  Go strings are byte sequences; they are modelled as \<open>string\<close> (a list of 8-bit
  \<open>char\<close>). The struct \<open>Token{typ, value}\<close> is a record; its fields carry the prefix
  \<open>tok_\<close> because \<open>typ\<close> and \<open>value\<close> are reserved words here.
\<close>

datatype TokenType = Num | Var | Op | Paren | Tern

record Token =
  tok_typ :: TokenType
  tok_value :: string

abbreviation Tok :: "TokenType \<Rightarrow> string \<Rightarrow> Token" where
  "Tok t v \<equiv> \<lparr>tok_typ = t, tok_value = v\<rparr>"

definition opMap :: "string \<rightharpoonup> string" where
  "opMap = map_of
     [(''+'', ''add''), (''-'', ''sub''), (''*'', ''mul''), (''/'', ''div''),
      (''=='', ''eq''), (''!='', ''ne''), (''>'', ''gt''), (''<'', ''lt''),
      (''>='', ''gte''), (''<='', ''lte''),
      (''&&'', ''and''), (''||'', ''or''), (''!'', ''not''), (''??'', ''nullish''),
      (''?'', ''tern'')]"

definition precedence_table :: "string \<rightharpoonup> int" where
  "precedence_table = map_of
     [(''!'', 6), (''*'', 5), (''/'', 5), (''+'', 4), (''-'', 4),
      (''>'', 3), (''<'', 3), (''>='', 3), (''<='', 3), (''=='', 3), (''!='', 3),
      (''&&'', 2), (''||'', 1), (''??'', 0)]"

text \<open>Reading a Go map at a missing key gives the zero value, here the integer 0.\<close>

definition precedence :: "string \<Rightarrow> int" where
  "precedence s = (case precedence_table s of None \<Rightarrow> 0 | Some p \<Rightarrow> p)"

section \<open>Character classes and library string functions\<close>

text \<open>
  The lexer reads one byte \<open>ch\<close> and asks \<open>unicode.IsSpace(rune(ch))\<close> and so on, so the
  classes are those of the Latin-1 code points 0 to 255.
\<close>

definition isSpace :: "char \<Rightarrow> bool" where
  "isSpace c = (let n = (of_char c :: nat) in (9 \<le> n \<and> n \<le> 13) \<or> n = 32 \<or> n = 133 \<or> n = 160)"

definition isDigit :: "char \<Rightarrow> bool" where
  "isDigit c = (let n = (of_char c :: nat) in 48 \<le> n \<and> n \<le> 57)"

definition isLetter :: "char \<Rightarrow> bool" where
  "isLetter c = (let n = (of_char c :: nat) in
     (65 \<le> n \<and> n \<le> 90) \<or> (97 \<le> n \<and> n \<le> 122) \<or> n = 170 \<or> n = 181 \<or> n = 186 \<or>
     (192 \<le> n \<and> n \<le> 214) \<or> (216 \<le> n \<and> n \<le> 246) \<or> (248 \<le> n \<and> n \<le> 255))"

text \<open>The regular-expression class \<open>\w\<close> is ASCII only: digits, letters and the underscore.\<close>

definition isWord :: "char \<Rightarrow> bool" where
  "isWord c = (let n = (of_char c :: nat) in
     (48 \<le> n \<and> n \<le> 57) \<or> (65 \<le> n \<and> n \<le> 90) \<or> (97 \<le> n \<and> n \<le> 122) \<or> n = 95)"

text \<open>
  \<open>string(ch)\<close> for a byte \<open>ch\<close> is the UTF-8 encoding of the code point \<open>ch\<close>: one byte
  below 128, two bytes from 128 on.
\<close>

definition byteToString :: "char \<Rightarrow> string" where
  "byteToString c = (let n = (of_char c :: nat) in
     if n < 128 then [c] else [char_of (192 + n div 64), char_of (128 + n mod 64)])"

text \<open>\<open>strings.Index\<close>: the least index at which the pattern occurs, \<open>None\<close> for -1.\<close>

fun strIndex :: "string \<Rightarrow> string \<Rightarrow> nat option" where
  "strIndex [] pat = (if pat = [] then Some 0 else None)"
| "strIndex (c # cs) pat =
     (if prefix pat (c # cs) then Some 0 else map_option Suc (strIndex cs pat))"

text \<open>\<open>strings.ReplaceAll\<close> with a non-empty pattern: leftmost occurrences, not overlapping.\<close>

fun ReplaceAll :: "string \<Rightarrow> string \<Rightarrow> string \<Rightarrow> string" where
  "ReplaceAll [] old new = []"
| "ReplaceAll (c # cs) old new =
     (if old \<noteq> [] \<and> prefix old (c # cs)
      then new @ ReplaceAll (drop (length old) (c # cs)) old new
      else c # ReplaceAll cs old new)"

text \<open>
  \<open>strings.TrimSpace\<close> removes leading and trailing Unicode white space. On a byte string
  these are the six ASCII space bytes and the UTF-8 encodings of the other code points
  with the White_Space property.
\<close>

definition asciiSpace :: "char \<Rightarrow> bool" where
  "asciiSpace c = (let n = (of_char c :: nat) in (9 \<le> n \<and> n \<le> 13) \<or> n = 32)"

definition utf8Spaces :: "string list" where
  "utf8Spaces = map (map char_of)
     ([[194, 133], [194, 160], [225, 154, 128]] @
      map (\<lambda>k. [226, 128, 128 + k]) [0 ..< 11] @
      [[226, 128, 168], [226, 128, 169], [226, 128, 175], [226, 129, 159], [227, 128, 128 :: nat]])"

function trimLeft :: "string \<Rightarrow> string" where
  "trimLeft s =
     (case s of [] \<Rightarrow> []
      | c # cs \<Rightarrow>
          if (of_char c :: nat) < 128 then (if asciiSpace c then trimLeft cs else s)
          else (case find (\<lambda>sp. prefix sp s) utf8Spaces of
                  Some sp \<Rightarrow> if length sp = 0 then s else trimLeft (drop (length sp) s)
                | None \<Rightarrow> s))"
  by pat_completeness auto
termination
  by (relation "measure length") auto

declare trimLeft.simps [simp del]

function trimRight :: "string \<Rightarrow> string" where
  "trimRight s =
     (if s = [] then []
      else if (of_char (last s) :: nat) < 128
        then (if asciiSpace (last s) then trimRight (butlast s) else s)
      else (case find (\<lambda>sp. suffix sp s) utf8Spaces of
              Some sp \<Rightarrow> if length sp = 0 then s else trimRight (take (length s - length sp) s)
            | None \<Rightarrow> s))"
  by pat_completeness auto
termination
  by (relation "measure length") auto

declare trimRight.simps [simp del]

definition TrimSpace :: "string \<Rightarrow> string" where
  "TrimSpace s = trimRight (trimLeft s)"

definition ContainsAny :: "string \<Rightarrow> string \<Rightarrow> bool" where
  "ContainsAny s chars = list_ex (\<lambda>c. c \<in> set chars) s"

definition HasPrefix :: "string \<Rightarrow> string \<Rightarrow> bool" where
  "HasPrefix s p = prefix p s"

definition TrimPrefix :: "string \<Rightarrow> string \<Rightarrow> string" where
  "TrimPrefix s p = (if prefix p s then drop (length p) s else s)"

text \<open>The slice \<open>s[i:j]\<close> for \<open>i \<le> j \<le> len(s)\<close>.\<close>

definition slice :: "'a list \<Rightarrow> nat \<Rightarrow> nat \<Rightarrow> 'a list" where
  "slice s i j = take (j - i) (drop i s)"

section \<open>The lexer\<close>

text \<open>
  \<open>tokenize\<close> walks the input with an index \<open>i\<close>; the model passes the remaining input
  \<open>expr[i:]\<close> and the tokens appended so far. The two inner loops scan a number (with the
  flag \<open>hasDot\<close>) and an identifier; both return the text read and the input left.
\<close>

fun scanNumber :: "bool \<Rightarrow> string \<Rightarrow> string \<times> string" where
  "scanNumber hasDot [] = ([], [])"
| "scanNumber hasDot (c # cs) =
     (if isDigit c \<or> (\<not> hasDot \<and> c = CHR ''.'')
      then (let (lit, rest) = scanNumber (hasDot \<or> c = CHR ''.'') cs in (c # lit, rest))
      else ([], c # cs))"

definition identChar :: "char \<Rightarrow> bool" where
  "identChar c = (isLetter c \<or> isDigit c \<or> c = CHR ''_'' \<or> c = CHR ''.'')"

fun scanIdent :: "string \<Rightarrow> string \<times> string" where
  "scanIdent [] = ([], [])"
| "scanIdent (c # cs) =
     (if identChar c then (let (name, rest) = scanIdent cs in (c # name, rest))
      else ([], c # cs))"

definition twoCharOps :: "string list" where
  "twoCharOps = [''=='', ''!='', ''>='', ''<='', ''&&'', ''||'', ''??'']"

text \<open>
  The identifier branch is entered on a letter, \<open>_\<close> or \<open>$\<close>, but its inner loop does not
  accept \<open>$\<close>: on \<open>$\<close> it reads nothing, appends a token with empty text and comes back to
  the same index. The loop then never ends, so the lexer is a partial function and
  \<open>None\<close> stands for a call that does not return.
\<close>

partial_function (option) tokenize_loop :: "string \<Rightarrow> Token list \<Rightarrow> Token list option" where
  "tokenize_loop expr tokens =
     (case expr of
        [] \<Rightarrow> Some tokens
      | ch # rest \<Rightarrow>
          if isSpace ch then tokenize_loop rest tokens
          else if ch = CHR ''('' \<or> ch = CHR '')'' then tokenize_loop rest (tokens @ [Tok Paren [ch]])
          else if rest \<noteq> [] \<and> [ch, hd rest] \<in> set twoCharOps
            then tokenize_loop (tl rest) (tokens @ [Tok Op [ch, hd rest]])
          else if ch \<in> set ''+-*/><!:?'' then tokenize_loop rest (tokens @ [Tok Op [ch]])
          else if isDigit ch
            then tokenize_loop (snd (scanNumber False expr))
                   (tokens @ [Tok Num (fst (scanNumber False expr))])
          else if isLetter ch \<or> ch = CHR ''_'' \<or> ch = CHR ''$''
            then tokenize_loop (snd (scanIdent expr)) (tokens @ [Tok Var (fst (scanIdent expr))])
          else tokenize_loop rest (tokens @ [Tok Var (byteToString ch)]))"

declare tokenize_loop.simps [code]

definition tokenize :: "string \<Rightarrow> Token list option" where
  "tokenize expr = tokenize_loop expr []"

section \<open>The ternary desugarer\<close>

definition isOp :: "Token \<Rightarrow> string \<Rightarrow> bool" where
  "isOp t s = (tok_typ t = Op \<and> tok_value t = s)"

fun tokensToString :: "Token list \<Rightarrow> string" where
  "tokensToString [] = []"
| "tokensToString [t] = tok_value t"
| "tokensToString (t # ts) = tok_value t @ '' '' @ tokensToString ts"

text \<open>
  The scan for the matching colon: \<open>findColon depth ts\<close> is the offset in \<open>ts\<close> of the
  first \<open>:\<close> met at depth 0, \<open>None\<close> when the scan reaches the end.
\<close>

fun findColon :: "nat \<Rightarrow> Token list \<Rightarrow> nat option" where
  "findColon depth [] = None"
| "findColon depth (t # ts) =
     (if isOp t ''?'' then map_option Suc (findColon (Suc depth) ts)
      else if isOp t '':'' then
        (if depth = 0 then Some 0 else map_option Suc (findColon (depth - 1) ts))
      else map_option Suc (findColon depth ts))"

fun parseTernary_loop :: "Token list \<Rightarrow> Token list \<Rightarrow> Token list" where
  "parseTernary_loop [] out = out"
| "parseTernary_loop (t # rest) out =
     (if isOp t ''?'' then
        (if out = [] then parseTernary_loop rest (out @ [t])
         else
           (let cond = last out; out' = butlast out in
            case findColon 0 rest of
              None \<Rightarrow> out' @ [cond] @ (t # rest)
            | Some j \<Rightarrow>
                (let tb = tokensToString (take j rest);
                     fb = tokensToString (drop (Suc j) rest)
                 in out' @ [Tok Tern (''tern('' @ tok_value cond @ '','' @ tb @ '','' @ fb @ '')'')])))
      else parseTernary_loop rest (out @ [t]))"

definition parseTernary :: "Token list \<Rightarrow> Token list" where
  "parseTernary tokens = parseTernary_loop tokens []"

section \<open>The shunting-yard parser\<close>

text \<open>
  The operator stack is a list whose head is the top of the stack (the Go slice keeps the
  top at its end). The loop state is the pair of the output queue and the stack.
\<close>

fun popToParen :: "Token list \<Rightarrow> Token list \<Rightarrow> Token list \<times> Token list" where
  "popToParen out [] = (out, [])"
| "popToParen out (tp # stack) =
     (if tok_value tp \<noteq> ''('' then popToParen (out @ [tp]) stack else (out, tp # stack))"

definition closeParen :: "Token list \<Rightarrow> Token list \<Rightarrow> Token list \<times> Token list" where
  "closeParen out stack =
     (let (out', stack') = popToParen out stack in
      if stack' \<noteq> [] \<and> tok_value (hd stack') = ''('' then (out', tl stack') else (out', stack'))"

fun popHigher :: "Token \<Rightarrow> Token list \<Rightarrow> Token list \<Rightarrow> Token list \<times> Token list" where
  "popHigher tok out [] = (out, [])"
| "popHigher tok out (tp # stack) =
     (if tok_typ tp = Op \<and> precedence (tok_value tp) \<ge> precedence (tok_value tok)
      then popHigher tok (out @ [tp]) stack
      else (out, tp # stack))"

fun rpn_step :: "Token list \<times> Token list \<Rightarrow> Token \<Rightarrow> Token list \<times> Token list" where
  "rpn_step (out, stack) tok =
     (case tok_typ tok of
        Var \<Rightarrow> (out @ [tok], stack)
      | Num \<Rightarrow> (out @ [tok], stack)
      | Tern \<Rightarrow> (out @ [tok], stack)
      | Op \<Rightarrow>
          if tok_value tok = ''('' then (out, tok # stack)
          else if tok_value tok = '')'' then closeParen out stack
          else (let (out', stack') = popHigher tok out stack in (out', tok # stack'))
      | Paren \<Rightarrow>
          if tok_value tok = ''('' then (out, tok # stack)
          else closeParen out stack)"

text \<open>At the end of the input the stack is popped onto the output, top first.\<close>

definition rpn_finish :: "Token list \<times> Token list \<Rightarrow> Token list" where
  "rpn_finish s = fst s @ snd s"

definition toRPN :: "Token list \<Rightarrow> Token list" where
  "toRPN tokens = rpn_finish (foldl rpn_step ([], []) tokens)"

section \<open>The pipeline generator\<close>

text \<open>
  Every \<open>return original\<close> of the source is an abort of the loop, kept apart by its cause.
  The text stack has its top at the head.
\<close>

datatype gen_abort = StackUnderflow | UnknownOperator | UnhandledToken

fun gen_step :: "string list \<Rightarrow> Token \<Rightarrow> gen_abort + string list" where
  "gen_step stack tok =
     (case tok_typ tok of
        Var \<Rightarrow> Inr (tok_value tok # stack)
      | Num \<Rightarrow> Inr (tok_value tok # stack)
      | Op \<Rightarrow>
          (case opMap (tok_value tok) of
             None \<Rightarrow> Inl UnknownOperator
           | Some fn \<Rightarrow>
               if tok_value tok = ''!'' then
                 (case stack of
                    [] \<Rightarrow> Inl StackUnderflow
                  | a # stack' \<Rightarrow> Inr ((a @ '' | '' @ fn) # stack'))
               else
                 (case stack of
                    b # a # stack' \<Rightarrow> Inr ((a @ '' | '' @ fn @ '' '' @ b) # stack')
                  | _ \<Rightarrow> Inl StackUnderflow))
      | Paren \<Rightarrow> Inl UnhandledToken
      | Tern \<Rightarrow> Inl UnhandledToken)"

fun gen_loop :: "Token list \<Rightarrow> string list \<Rightarrow> gen_abort + string list" where
  "gen_loop [] stack = Inr stack"
| "gen_loop (tok # rpn) stack =
     (case gen_step stack tok of Inl e \<Rightarrow> Inl e | Inr stack' \<Rightarrow> gen_loop rpn stack')"

definition rpnToPipeline :: "Token list \<Rightarrow> string" where
  "rpnToPipeline rpn =
     (let original = tokensToString rpn in
      case gen_loop rpn [] of
        Inl e \<Rightarrow> original
      | Inr stack \<Rightarrow> if length stack \<noteq> 1 then original else hd stack)"

section \<open>The variable reference rewriter\<close>

text \<open>
  The regular expression \<open>\$(\w+(?:\.\w+)*)\<close> is matched by hand. Both repetitions are
  greedy and the part after them can match the empty text, so the leftmost-first match at
  a \<open>$\<close> takes the longest run of word characters and then every following group of a
  dot and at least one word character.
\<close>

function dotParts :: "string \<Rightarrow> nat" where
  "dotParts s =
     (case s of
        [] \<Rightarrow> 0
      | c # r \<Rightarrow>
          if c = CHR ''.'' \<and> takeWhile isWord r \<noteq> []
          then 1 + length (takeWhile isWord r) + dotParts (dropWhile isWord r)
          else 0)"
  by pat_completeness auto
termination
  by (relation "measure length") (auto simp: length_dropWhile_le less_Suc_eq_le)

declare dotParts.simps [simp del]

text \<open>\<open>matchVarRef s\<close>: the length of the match that starts at the head of \<open>s\<close>, if any.\<close>

definition matchVarRef :: "string \<Rightarrow> nat option" where
  "matchVarRef s =
     (case s of
        [] \<Rightarrow> None
      | c # r \<Rightarrow>
          if c = CHR ''$'' \<and> takeWhile isWord r \<noteq> []
          then Some (1 + length (takeWhile isWord r) + dotParts (dropWhile isWord r))
          else None)"

text \<open>
  \<open>FindAllStringIndex(expr, -1)\<close>: the successive matches, not overlapping, as pairs of
  start and end index. \<open>findAll pos s\<close> searches \<open>s = expr[pos:]\<close>.
\<close>

function findAll :: "nat \<Rightarrow> string \<Rightarrow> (nat \<times> nat) list" where
  "findAll pos s =
     (case s of
        [] \<Rightarrow> []
      | c # r \<Rightarrow>
          (case matchVarRef s of
             None \<Rightarrow> findAll (pos + 1) r
           | Some len \<Rightarrow>
               if len = 0 then findAll (pos + 1) r
               else (pos, pos + len) # findAll (pos + len) (drop len s)))"
  by pat_completeness auto
termination
  by (relation "measure (\<lambda>(pos, s). length s)") auto

declare findAll.simps [simp del]

text \<open>The loop over the matches; its state is the text written so far and \<open>last\<close>.\<close>

definition replaceVars_step :: "string \<Rightarrow> string \<times> nat \<Rightarrow> nat \<times> nat \<Rightarrow> string \<times> nat" where
  "replaceVars_step expr st pos =
     (let out = fst st; last_ix = snd st; start = fst pos; end_ix = snd pos;
          out1 = out @ slice expr last_ix start;
          ref = slice expr start end_ix;
          key = TrimPrefix ref ''$'';
          after = (if end_ix < length expr then drop end_ix expr else [])
      in if HasPrefix after '':='' \<or> HasPrefix after ''='' \<or> HasPrefix after '':''
         then (out1 @ ref, end_ix)
         else (out1 @ ''Vars.'' @ key, end_ix))"

definition replaceVars :: "string \<Rightarrow> string" where
  "replaceVars expr =
     (let matches = findAll 0 expr in
      if matches = [] then expr
      else (let st = foldl (replaceVars_step expr) ([], 0) matches
            in fst st @ drop (snd st) expr))"

section \<open>The preprocessor\<close>

text \<open>
  \<open>convertPlaceholder\<close> is the body of the loop from the trimming of the placeholder's text
  to the text written for it. It returns when the lexer does.
\<close>

definition convertPlaceholder :: "string \<Rightarrow> string option" where
  "convertPlaceholder raw =
     (let expr = replaceVars (TrimSpace raw) in
      if ContainsAny expr ''+-*/><=!&|?:'' then
        (case tokenize expr of
           None \<Rightarrow> None
         | Some tokens \<Rightarrow>
             (let newExpr = rpnToPipeline (toRPN (parseTernary tokens))
              in Some (''{{ '' @ ReplaceAll newExpr ''Vars.'' ''$.Vars.'' @ '' }}'')))
      else Some (''{{ '' @ ReplaceAll expr ''Vars.'' ''$.Vars.'' @ '' }}''))"

text \<open>
  The loop of \<open>Preprocessor\<close> keeps an index \<open>start\<close> and appends to \<open>result\<close>. The model
  takes the rest of the template \<open>tmpl[start:]\<close> and returns what the loop appends from
  there on. \<open>endIdx\<close> counts from the opening marker, as in the source.
\<close>

function Preprocessor_from :: "string \<Rightarrow> string option" where
  "Preprocessor_from rest =
     (if rest = [] then Some []
      else
        (case strIndex rest ''{{'' of
           None \<Rightarrow> Some rest
         | Some idx \<Rightarrow>
             (case strIndex (drop idx rest) ''}}'' of
                None \<Rightarrow> Some (take idx rest @ drop idx rest)
              | Some endIdx \<Rightarrow>
                  (case convertPlaceholder (slice rest (idx + 2) (idx + endIdx)) of
                     None \<Rightarrow> None
                   | Some piece \<Rightarrow>
                       (case Preprocessor_from (drop (idx + endIdx + 2) rest) of
                          None \<Rightarrow> None
                        | Some written \<Rightarrow> Some (take idx rest @ piece @ written))))))"
  by pat_completeness auto
termination
  by (relation "measure length") auto

declare Preprocessor_from.simps [simp del]

definition Preprocessor :: "string \<Rightarrow> string option" where
  "Preprocessor tmpl = Preprocessor_from tmpl"

section \<open>The operator runtime\<close>

text \<open>
  Modelled from the spec: \<open>toFloatRV\<close> and \<open>RV\<close>, helpers of this repository that are not
  among its source files ("all operands are coerced to double-precision float before
  arithmetic"; \<open>RV\<close> wraps a float as a value). They are parameters of the runtime
  functions, together with the operations of \<open>float64\<close> that the functions use: the four
  arithmetic operations, the constant \<open>float64(0)\<close> and the test \<open>d == 0\<close>. Nothing is
  assumed about them, so what is proved holds for IEEE double arithmetic in particular.
  \<open>'v\<close> is the type of the operands (\<open>reflect.Value\<close>), \<open>'f\<close> that of the floats.
\<close>

record ('v, 'f) float_env =
  toFloatRV :: "'v \<Rightarrow> 'f"
  RV :: "'f \<Rightarrow> 'v"
  f_add :: "'f \<Rightarrow> 'f \<Rightarrow> 'f"
  f_sub :: "'f \<Rightarrow> 'f \<Rightarrow> 'f"
  f_mul :: "'f \<Rightarrow> 'f \<Rightarrow> 'f"
  f_div :: "'f \<Rightarrow> 'f \<Rightarrow> 'f"
  f_zero :: "'f"
  f_eq_zero :: "'f \<Rightarrow> bool"

text \<open>
  \<open>left\<close> starts as the last operand; the loop runs over the operands before it, from the
  first on.
\<close>

definition Add :: "('v, 'f) float_env \<Rightarrow> 'v list \<Rightarrow> 'v" where
  "Add env vals =
     (if length vals = 0 then RV env (f_zero env)
      else RV env (foldl (\<lambda>left v. f_add env left (toFloatRV env v))
                     (toFloatRV env (last vals)) (butlast vals)))"

definition Sub :: "('v, 'f) float_env \<Rightarrow> 'v list \<Rightarrow> 'v" where
  "Sub env vals =
     (if length vals = 0 then RV env (f_zero env)
      else RV env (foldl (\<lambda>left v. f_sub env left (toFloatRV env v))
                     (toFloatRV env (last vals)) (butlast vals)))"

definition Mul :: "('v, 'f) float_env \<Rightarrow> 'v list \<Rightarrow> 'v" where
  "Mul env vals =
     (if length vals = 0 then RV env (f_zero env)
      else RV env (foldl (\<lambda>left v. f_mul env left (toFloatRV env v))
                     (toFloatRV env (last vals)) (butlast vals)))"

fun Div_loop :: "('v, 'f) float_env \<Rightarrow> 'f \<Rightarrow> 'v list \<Rightarrow> 'v" where
  "Div_loop env left [] = RV env left"
| "Div_loop env left (v # vs) =
     (let d = toFloatRV env v in
      if f_eq_zero env d then RV env (f_zero env)
      else Div_loop env (f_div env left d) vs)"

definition Div :: "('v, 'f) float_env \<Rightarrow> 'v list \<Rightarrow> 'v" where
  "Div env vals =
     (if length vals = 0 then RV env (f_zero env)
      else Div_loop env (toFloatRV env (last vals)) (butlast vals))"

text \<open>
  A \<open>reflect.Value\<close> is the zero Value, which holds nothing, or holds a Go value.
  \<open>IsZero\<close> panics on the zero Value; on any other it says whether the value held is the
  zero value of its type, a test taken as the parameter \<open>isZeroValue\<close>. Indexing \<open>vals\<close>
  out of range panics too.
\<close>

datatype 'a Value = Invalid | Valid 'a

datatype panic = IndexOutOfRange | ValueError

fun IsZero :: "('a \<Rightarrow> bool) \<Rightarrow> 'a Value \<Rightarrow> panic + bool" where
  "IsZero isZeroValue Invalid = Inl ValueError"
| "IsZero isZeroValue (Valid a) = Inr (isZeroValue a)"

fun IsValid :: "'a Value \<Rightarrow> bool" where
  "IsValid Invalid = False"
| "IsValid (Valid a) = True"

definition index_vals :: "'a list \<Rightarrow> nat \<Rightarrow> panic + 'a" where
  "index_vals vals i = (if i < length vals then Inr (vals ! i) else Inl IndexOutOfRange)"

text \<open>In \<open>vals[0].IsZero() || !vals[0].IsValid()\<close> the call of \<open>IsZero\<close> comes first.\<close>

definition Nullish :: "('a \<Rightarrow> bool) \<Rightarrow> 'a Value list \<Rightarrow> panic + 'a Value" where
  "Nullish isZeroValue vals =
     (case index_vals vals 0 of
        Inl e \<Rightarrow> Inl e
      | Inr v0 \<Rightarrow>
          (case IsZero isZeroValue v0 of
             Inl e \<Rightarrow> Inl e
           | Inr z \<Rightarrow> if z \<or> \<not> IsValid v0 then index_vals vals 1 else Inr v0))"

section \<open>Evaluating a pipeline\<close>

text \<open>
  Modelled from the spec: the host engine's evaluation of a generated chain
  \<open>base | fn arg ... | fn arg ...\<close>. The engine is outside the repository; the spec fixes
  its convention: the stages run from left to right, and each stage calls the function it
  names with its written arguments followed by the value piped in, which is so the last
  operand. \<open>lit\<close> turns the text of an operand into a value; \<open>None\<close> is a chain that does
  not have this form or names a function that is not registered.
\<close>

fun splitOn :: "char \<Rightarrow> string \<Rightarrow> string list" where
  "splitOn sep [] = [[]]"
| "splitOn sep (c # cs) =
     (if c = sep then [] # splitOn sep cs
      else (case splitOn sep cs of [] \<Rightarrow> [[c]] | w # ws \<Rightarrow> (c # w) # ws))"

definition fields :: "string \<Rightarrow> string list" where
  "fields s = filter (\<lambda>w. w \<noteq> []) (splitOn CHR '' '' s)"

definition arithFuncs :: "('v, 'f) float_env \<Rightarrow> string \<rightharpoonup> ('v list \<Rightarrow> 'v)" where
  "arithFuncs env = map_of
     [(''add'', Add env), (''sub'', Sub env), (''mul'', Mul env), (''div'', Div env)]"

fun runStages :: "('v, 'f) float_env \<Rightarrow> (string \<Rightarrow> 'v) \<Rightarrow> 'v \<Rightarrow> string list \<Rightarrow> 'v option" where
  "runStages env lit acc [] = Some acc"
| "runStages env lit acc (stage # stages) =
     (case fields stage of
        [] \<Rightarrow> None
      | fn # args \<Rightarrow>
          (case arithFuncs env fn of
             None \<Rightarrow> None
           | Some f \<Rightarrow> runStages env lit (f (map lit args @ [acc])) stages))"

definition evalPipeline :: "('v, 'f) float_env \<Rightarrow> (string \<Rightarrow> 'v) \<Rightarrow> string \<Rightarrow> 'v option" where
  "evalPipeline env lit text =
     (case splitOn CHR ''|'' text of
        [] \<Rightarrow> None
      | base # stages \<Rightarrow>
          (case fields base of
             [b] \<Rightarrow> runStages env lit (lit b) stages
           | _ \<Rightarrow> None))"

text \<open>
  Where a claim names a number, the parameters are exact rational arithmetic and the
  decimal value of a literal. On the operands used (small integers and halves) every
  float64 operation is exact, so the float64 results are the rational ones.
\<close>

definition exact_env :: "(rat, rat) float_env" where
  "exact_env = \<lparr>toFloatRV = (\<lambda>v. v), RV = (\<lambda>x. x),
                f_add = (\<lambda>x y. x + y), f_sub = (\<lambda>x y. x - y),
                f_mul = (\<lambda>x y. x * y), f_div = (\<lambda>x y. x / y),
                f_zero = 0, f_eq_zero = (\<lambda>x. x = 0)\<rparr>"

definition digitsValue :: "string \<Rightarrow> nat" where
  "digitsValue s = foldl (\<lambda>n c. 10 * n + (of_char c - 48)) 0 s"

definition decimalValue :: "string \<Rightarrow> rat" where
  "decimalValue s =
     (let ip = takeWhile (\<lambda>c. c \<noteq> CHR ''.'') s;
          fp = drop 1 (dropWhile (\<lambda>c. c \<noteq> CHR ''.'') s)
      in of_nat (digitsValue ip) + of_nat (digitsValue fp) / 10 ^ length fp)"

section \<open>Terms of the claims\<close>



section \<open>The lexer does not return on a dollar sign\<close>

text \<open>
  A call of the lexer's loop that returns did not start at a \<open>$\<close>: at a \<open>$\<close> the loop
  calls itself on the same input.
\<close>

lemma tokenize_loop_returns_no_dollar:
  assumes "tokenize_loop expr tokens = Some res"
  shows "expr = [] \<or> hd expr \<noteq> CHR ''$''"
proof (rule tokenize_loop.raw_induct
    [where P = "\<lambda>expr tokens res. expr = [] \<or> hd expr \<noteq> CHR ''$''", OF _ assms])
  fix f :: "string \<Rightarrow> Token list \<Rightarrow> Token list option"
    and e :: string and ts res' :: "Token list"
  assume IH: "\<And>e' ts' y. f e' ts' = Some y \<Longrightarrow> e' = [] \<or> hd e' \<noteq> CHR ''$''"
  assume step: "(case e of
        [] \<Rightarrow> Some ts
      | ch # rest \<Rightarrow>
          if isSpace ch then f rest ts
          else if ch = CHR ''('' \<or> ch = CHR '')'' then f rest (ts @ [Tok Paren [ch]])
          else if rest \<noteq> [] \<and> [ch, hd rest] \<in> set twoCharOps
            then f (tl rest) (ts @ [Tok Op [ch, hd rest]])
          else if ch \<in> set ''+-*/><!:?'' then f rest (ts @ [Tok Op [ch]])
          else if isDigit ch
            then f (snd (scanNumber False e)) (ts @ [Tok Num (fst (scanNumber False e))])
          else if isLetter ch \<or> ch = CHR ''_'' \<or> ch = CHR ''$''
            then f (snd (scanIdent e)) (ts @ [Tok Var (fst (scanIdent e))])
          else f rest (ts @ [Tok Var (byteToString ch)])) = Some res'"
  show "e = [] \<or> hd e \<noteq> CHR ''$''"
  proof (cases e)
    case Nil
    then show ?thesis by simp
  next
    case (Cons ch rest)
    show ?thesis
    proof (cases "ch = CHR ''$''")
      case False
      with Cons show ?thesis by simp
    next
      case True
      with Cons step have "f e (ts @ [Tok Var []]) = Some res'"
        by (simp add: isSpace_def isDigit_def twoCharOps_def identChar_def isLetter_def
            split: if_splits)
      from IH [OF this] Cons True show ?thesis by simp
    qed
  qed
qed

lemma tokenize_loop_dollar: "tokenize_loop (CHR ''$'' # rest) tokens = None"
proof (cases "tokenize_loop (CHR ''$'' # rest) tokens")
  case None
  then show ?thesis .
next
  case (Some res)
  from tokenize_loop_returns_no_dollar [OF this] show ?thesis by simp
qed

section \<open>Facts about the string functions\<close>

lemma strIndex_bound: "strIndex s p = Some i \<Longrightarrow> i + length p \<le> length s"
proof (induction s arbitrary: i)
  case Nil
  then show ?case by (simp split: if_splits)
next
  case (Cons c cs)
  then show ?case
    by (auto simp: prefix_length_le split: if_splits dest: prefix_length_le)
qed

lemma prefix_append_long: "length p \<le> length s \<Longrightarrow> prefix p (s @ t) = prefix p s"
  by (metis prefix_append prefix_length_prefix prefix_prefix prefixI)

lemma strIndex_append:
  "strIndex s p = Some i \<Longrightarrow> strIndex (s @ t) p = Some i"
proof (induction s arbitrary: i)
  case Nil
  then show ?case by (cases t) (simp_all split: if_splits)
next
  case (Cons c cs)
  from strIndex_bound [OF Cons.prems] have len: "length p \<le> length (c # cs)" by simp
  show ?case
  proof (cases "prefix p (c # cs)")
    case True
    with Cons.prems prefix_append_long [OF len, of t] show ?thesis by simp
  next
    case False
    with Cons.prems obtain j where j: "strIndex cs p = Some j" "i = Suc j"
      by auto
    from prefix_append_long [OF len, of t] False have "\<not> prefix p ((c # cs) @ t)" by simp
    with Cons.IH [OF j(1)] j(2) show ?thesis by simp
  qed
qed

lemma strIndex_close_after_open:
  "strIndex R ''}}'' = None \<Longrightarrow> strIndex (''{{'' @ R) ''}}'' = None"
  by (cases R) simp_all

lemma strIndex_close_none_append:
  assumes "strIndex R ''}}'' = None"
  shows "strIndex X ''}}'' = None \<Longrightarrow> strIndex (X @ ''{{'' @ R) ''}}'' = None"
proof (induction X)
  case Nil
  from strIndex_close_after_open [OF assms] show ?case by simp
next
  case (Cons c cs)
  then have "strIndex cs ''}}'' = None" and np: "\<not> prefix ''}}'' (c # cs)"
    by (auto split: if_splits)
  from Cons.IH [OF this(1)] have IH: "strIndex (cs @ ''{{'' @ R) ''}}'' = None" .
  from np have "\<not> prefix ''}}'' (c # cs @ ''{{'' @ R)"
    by (cases cs) auto
  with IH show ?case by simp
qed

lemma strIndex_open_found:
  assumes "prefix ''{{'' X" and "strIndex X ''}}'' = None"
  shows "strIndex A ''{{'' = None \<Longrightarrow>
     \<exists>idx. strIndex (A @ X) ''{{'' = Some idx \<and> strIndex (drop idx (A @ X)) ''}}'' = None"
proof (induction A)
  case Nil
  from assms have "strIndex X ''{{'' = Some 0" by (cases X) auto
  with assms(2) show ?case by simp
next
  case (Cons c cs)
  then have none: "strIndex cs ''{{'' = None" and np: "\<not> prefix ''{{'' (c # cs)"
    by (auto split: if_splits)
  from Cons.IH [OF none] obtain idx where
    idx: "strIndex (cs @ X) ''{{'' = Some idx" "strIndex (drop idx (cs @ X)) ''}}'' = None"
    by blast
  show ?case
  proof (cases "prefix ''{{'' (c # cs @ X)")
    case False
    then have "strIndex ((c # cs) @ X) ''{{'' = Some (Suc idx)"
      using idx(1) by simp
    moreover have "drop (Suc idx) ((c # cs) @ X) = drop idx (cs @ X)" by simp
    ultimately show ?thesis using idx(2) by metis
  next
    case True
    from True have c: "c = CHR ''{''" by simp
    have cs: "cs = []"
    proof (cases cs)
      case Nil
      then show ?thesis .
    next
      case (Cons d ds)
      with True have "d = CHR ''{''" by auto
      with c Cons np show ?thesis by simp
    qed
    from True have "strIndex ((c # cs) @ X) ''{{'' = Some 0" by auto
    moreover from c cs assms(2) have "strIndex (drop 0 ((c # cs) @ X)) ''}}'' = None"
      by simp
    ultimately show ?thesis by blast
  qed
qed

lemma slice_append:
  "j \<le> length s \<Longrightarrow> slice (s @ t) i j = slice s i j"
  by (simp add: slice_def)

section \<open>The lexer, the rewriter and the generator on a binary expression\<close>
























section \<open>One turn of the preprocessor's loop\<close>

text \<open>
  The slice that holds a placeholder's text is always in range, so the slicing in the
  loop cannot panic: the closing marker is searched from the opening one on and is found
  at an offset of at least 2.
\<close>

lemma strIndex_occurs: "strIndex s p = Some i \<Longrightarrow> prefix p (drop i s)"
proof (induction s arbitrary: i)
  case Nil
  then show ?case by (simp split: if_splits)
next
  case (Cons c cs)
  then show ?case by (cases "prefix p (c # cs)") auto
qed

lemma placeholder_slice_in_range:
  assumes "strIndex rest ''{{'' = Some idx" and "strIndex (drop idx rest) ''}}'' = Some endIdx"
  shows "idx + 2 \<le> idx + endIdx \<and> idx + endIdx \<le> length rest"
proof -
  from strIndex_occurs [OF assms(1)] obtain X where X: "drop idx rest = ''{{'' @ X"
    by (auto simp: prefix_def)
  with assms(2) have "2 \<le> endIdx" by (auto split: if_splits)
  moreover from strIndex_bound [OF assms(2)] have "idx + endIdx \<le> length rest"
    by (cases "idx \<le> length rest") auto
  ultimately show ?thesis by simp
qed

lemma Preprocessor_from_no_open:
  "strIndex T ''{{'' = None \<Longrightarrow> Preprocessor_from T = Some T"
  by (subst Preprocessor_from.simps) simp

lemma Preprocessor_from_no_close:
  "strIndex T ''{{'' = Some idx \<Longrightarrow> strIndex (drop idx T) ''}}'' = None
   \<Longrightarrow> Preprocessor_from T = Some T"
  by (subst Preprocessor_from.simps) auto

lemma Preprocessor_from_placeholder:
  "strIndex T ''{{'' = Some idx \<Longrightarrow> strIndex (drop idx T) ''}}'' = Some endIdx
   \<Longrightarrow> Preprocessor_from T =
       (case convertPlaceholder (slice T (idx + 2) (idx + endIdx)) of
          None \<Rightarrow> None
        | Some piece \<Rightarrow>
            (case Preprocessor_from (drop (idx + endIdx + 2) T) of
               None \<Rightarrow> None
             | Some written \<Rightarrow> Some (take idx T @ piece @ written)))"
  by (subst Preprocessor_from.simps) auto

lemma Preprocessor_from_unclosed:
  assumes R: "strIndex R ''}}'' = None"
  shows "Preprocessor_from (A @ ''{{'' @ R)
       = map_option (\<lambda>written. written @ ''{{'' @ R) (Preprocessor_from A)"
proof (induction A rule: Preprocessor_from.induct)
  case (1 A)
  let ?T = "A @ ''{{'' @ R"
  show ?case
  proof (cases "strIndex A ''{{''")
    case None
    have "prefix ''{{'' (''{{'' @ R)" by simp
    from strIndex_open_found [OF this strIndex_close_after_open [OF R] None] obtain idx where
      "strIndex ?T ''{{'' = Some idx" "strIndex (drop idx ?T) ''}}'' = None"
      by blast
    then have "Preprocessor_from ?T = Some ?T"
      by (rule Preprocessor_from_no_close)
    moreover from None have "Preprocessor_from A = Some A"
      by (rule Preprocessor_from_no_open)
    ultimately show ?thesis by simp
  next
    case (Some idx)
    then have ne: "A \<noteq> []" by auto
    from strIndex_bound [OF Some] have idx_le: "idx \<le> length A" by simp
    from strIndex_append [OF Some] have open_T: "strIndex ?T ''{{'' = Some idx" .
    from idx_le have drop_T: "drop idx ?T = drop idx A @ ''{{'' @ R"
      and take_T: "take idx ?T = take idx A" by simp_all
    show ?thesis
    proof (cases "strIndex (drop idx A) ''}}''")
      case None
      from strIndex_close_none_append [OF R None]
      have "strIndex (drop idx ?T) ''}}'' = None" unfolding drop_T .
      with open_T have "Preprocessor_from ?T = Some ?T"
        by (rule Preprocessor_from_no_close)
      moreover from Some None have "Preprocessor_from A = Some A"
        by (rule Preprocessor_from_no_close)
      ultimately show ?thesis by simp
    next
      case close: (Some endIdx)
      from strIndex_bound [OF close] idx_le have e_le: "idx + endIdx + 2 \<le> length A" by simp
      from strIndex_append [OF close]
      have close_T: "strIndex (drop idx ?T) ''}}'' = Some endIdx" unfolding drop_T .
      from e_le have slice_T: "slice ?T (idx + 2) (idx + endIdx) = slice A (idx + 2) (idx + endIdx)"
        by (simp add: slice_append)
      from e_le have rest_T: "drop (idx + endIdx + 2) ?T = drop (idx + endIdx + 2) A @ ''{{'' @ R"
        by simp
      note L = Preprocessor_from_placeholder [OF open_T close_T, unfolded slice_T take_T rest_T]
      note Rr = Preprocessor_from_placeholder [OF Some close]
      show ?thesis
      proof (cases "convertPlaceholder (slice A (idx + 2) (idx + endIdx))")
        case None
        with L Rr show ?thesis by simp
      next
        case piece: (Some piece)
        note IH = "1.IH" [OF ne Some close piece]
        show ?thesis
          unfolding L Rr piece IH
          by (cases "Preprocessor_from (drop (idx + endIdx + 2) A)") simp_all
      qed
    qed
  qed
qed


text \<open>A placeholder whose rewritten text starts with \<open>$\<close> and holds an operator character
  sends the \<open>$\<close> to the lexer, which does not return.\<close>

lemma convertPlaceholder_dollar:
  assumes "replaceVars (TrimSpace raw) = CHR ''$'' # r"
    and "ContainsAny (CHR ''$'' # r) ''+-*/><=!&|?:''"
  shows "convertPlaceholder raw = None"
  using assms by (simp add: convertPlaceholder_def tokenize_def tokenize_loop_dollar)

section \<open>Precedence and associativity in the generated pipeline\<close>

text \<open>
  Claim C2. The placeholder \<open>2 + 3 * 4\<close> is preprocessed to the chain
  \<open>2 | add 3 | mul 4\<close>: the generator writes the right operand \<open>3 | mul 4\<close> after \<open>add\<close>
  without grouping it. Run from left to right with each result piped in as the last
  operand, the chain is \<open>mul(4, add(3, 2))\<close> and yields 20, where the claim says 14.
\<close>

theorem precedence_lost_in_pipeline:
  "Preprocessor ''{{ 2 + 3 * 4 }}'' = Some ''{{ 2 | add 3 | mul 4 }}''
   \<and> evalPipeline exact_env decimalValue ''2 | add 3 | mul 4'' = Some 20"
  by code_simp

text \<open>
  Claim C3. The placeholder \<open>10 - 3 - 2\<close> is preprocessed to the chain
  \<open>10 | sub 3 | sub 2\<close>, and the chain evaluates with \<open>Sub\<close> to 5: \<open>Sub(3, 10)\<close> is 7 and
  \<open>Sub(2, 7)\<close> is 5.
\<close>

theorem left_associative_subtraction:
  "Preprocessor ''{{ 10 - 3 - 2 }}'' = Some ''{{ 10 | sub 3 | sub 2 }}''
   \<and> evalPipeline exact_env decimalValue ''10 | sub 3 | sub 2'' = Some 5
   \<and> evalPipeline exact_env decimalValue ''10 | sub 3 | sub 2'' \<noteq> Some 9"
  by code_simp

section \<open>The pipeline generator\<close>

text \<open>
  Claim C4. The generator's switch has no case for a ternary token, so the token takes the
  default branch and the generator returns the flattened RPN: for the RPN of the claim's
  example it returns \<open>5 tern(1,2,3) +\<close> and not \<open>5 | add tern(1,2,3)\<close>.
\<close>

theorem ternary_token_aborts_generation:
  "rpnToPipeline [Tok Num ''5'', Tok Tern ''tern(1,2,3)'', Tok Op ''+''] = ''5 tern(1,2,3) +''
   \<and> rpnToPipeline [Tok Num ''5'', Tok Tern ''tern(1,2,3)'', Tok Op ''+'']
       \<noteq> ''5 | add tern(1,2,3)''"
  by code_simp





section \<open>Nullish\<close>

text \<open>
  Claim C6. Called with the zero \<open>reflect.Value\<close> as its first operand, \<open>Nullish\<close> panics:
  \<open>IsZero\<close> is called before the test \<open>!IsValid()\<close> and panics on the zero Value, so the
  second operand is not returned.
\<close>

theorem Nullish_panics_on_invalid:
  "Nullish isZeroValue [Invalid, b] = Inl ValueError"
  by (simp add: Nullish_def index_vals_def)

text \<open>On a first operand that holds a value, \<open>Nullish\<close> does what the claim says.\<close>

lemma Nullish_valid:
  "Nullish isZeroValue [Valid a, b] = Inr (if isZeroValue a then b else Valid a)"
  by (simp add: Nullish_def index_vals_def)

section \<open>Assignment sites\<close>

text \<open>
  Claim C7. In \<open>$a := 1\<close> the text after the match \<open>$a\<close> starts with a space, not with an
  assignment marker, so the rewriter replaces \<open>$a\<close> by \<open>Vars.a\<close>. The expression then holds
  \<open>:\<close> and \<open>=\<close>, goes through the lexer, the parser and the generator, which falls back
  on the unknown operator \<open>:\<close>, and the placeholder comes out as \<open>{{ $.Vars.a = 1 : }}\<close>.
\<close>

theorem spaced_assignment_is_rewritten:
  "replaceVars ''$a := 1'' = ''Vars.a := 1''
   \<and> Preprocessor ''{{ $a := 1 }}'' = Some ''{{ $.Vars.a = 1 : }}''"
  by code_simp

text \<open>
  With the marker right after the name the rewriter leaves the text as it is; the
  preprocessor then hands the \<open>$\<close> to the lexer and does not return.
\<close>

lemma unspaced_assignment:
  "replaceVars ''$a:=1'' = ''$a:=1'' \<and> Preprocessor ''{{$a:=1}}'' = None"
proof -
  have rv: "replaceVars ''$a:=1'' = ''$a:=1''" by code_simp
  have "replaceVars (TrimSpace ''$a:=1'') = ''$a:=1''" by code_simp
  moreover have "ContainsAny ''$a:=1'' ''+-*/><=!&|?:''" by code_simp
  ultimately have conv: "convertPlaceholder ''$a:=1'' = None"
    by (rule convertPlaceholder_dollar)
  have o: "strIndex ''{{$a:=1}}'' ''{{'' = Some 0" by code_simp
  have c: "strIndex (drop 0 ''{{$a:=1}}'') ''}}'' = Some 7" by code_simp
  have sl: "slice ''{{$a:=1}}'' (0 + 2) (0 + 7) = ''$a:=1''" by code_simp
  from Preprocessor_from_placeholder [OF o c] conv sl rv show ?thesis
    by (simp add: Preprocessor_def)
qed

section \<open>An unmatched closing parenthesis\<close>

lemma popToParen_no_paren:
  "list_all (\<lambda>t. tok_value t \<noteq> ''('') stack \<Longrightarrow> popToParen out stack = (out @ stack, [])"
  by (induction stack arbitrary: out) auto

lemma closeParen_no_paren:
  "list_all (\<lambda>t. tok_value t \<noteq> ''('') stack \<Longrightarrow> closeParen out stack = (out @ stack, [])"
  by (simp add: closeParen_def popToParen_no_paren)

lemma rpn_step_close_paren:
  "rpn_step (out, stack) (Tok Paren '')'') = closeParen out stack"
  by simp

text \<open>
  Claim C8, as stated, fails: with \<open>+\<close> waiting on the stack, the \<open>)\<close> in \<open>1 + ) 2\<close> moves
  the \<open>+\<close> to the output before the \<open>2\<close>, and the RPN is \<open>1 + 2\<close> instead of \<open>1 2 +\<close>.
\<close>

theorem unmatched_close_paren_not_noop:
  "toRPN [Tok Num ''1'', Tok Op ''+'', Tok Paren '')'', Tok Num ''2'']
     \<noteq> toRPN [Tok Num ''1'', Tok Op ''+'', Tok Num ''2'']"
  by code_simp

text \<open>
  Claim C8, amended. A \<open>)\<close> met when no \<open>(\<close> is on the operator stack raises nothing; it
  moves every operator on the stack to the output queue, top first, and parsing goes on
  with an empty stack. Here \<open>(out, stack)\<close> is the parser's state after the tokens
  \<open>pre\<close> that come before the \<open>)\<close>.
\<close>

theorem unmatched_close_paren_flushes_stack:
  assumes "foldl rpn_step ([], []) pre = (out, stack)"
    and "list_all (\<lambda>t. tok_value t \<noteq> ''('') stack"
  shows "toRPN (pre @ Tok Paren '')'' # post) = rpn_finish (foldl rpn_step (out @ stack, []) post)"
proof -
  have "foldl rpn_step ([], []) (pre @ Tok Paren '')'' # post)
      = foldl rpn_step (closeParen out stack) post"
    using assms(1) by (simp del: rpn_step.simps add: rpn_step_close_paren)
  then show ?thesis
    using assms(2) by (simp add: toRPN_def closeParen_no_paren)
qed

theorem unmatched_close_paren_flushes_stack_witness:
  "foldl rpn_step ([], []) [Tok Num ''1'', Tok Op ''+''] = ([Tok Num ''1''], [Tok Op ''+''])
   \<and> list_all (\<lambda>t. tok_value t \<noteq> ''('') [Tok Op ''+'']
   \<and> toRPN ([Tok Num ''1'', Tok Op ''+''] @ Tok Paren '')'' # [Tok Num ''2''])
       = [Tok Num ''1'', Tok Op ''+'', Tok Num ''2'']"
proof -
  have h1: "foldl rpn_step ([], []) [Tok Num ''1'', Tok Op ''+'']
      = ([Tok Num ''1''], [Tok Op ''+''])"
    by code_simp
  have h2: "list_all (\<lambda>t. tok_value t \<noteq> ''('') [Tok Op ''+'']"
    by simp
  have h3: "rpn_finish (foldl rpn_step ([Tok Num ''1''] @ [Tok Op ''+''], []) [Tok Num ''2''])
      = [Tok Num ''1'', Tok Op ''+'', Tok Num ''2'']"
    by code_simp
  from unmatched_close_paren_flushes_stack [OF h1 h2, of "[Tok Num ''2'']"] h1 h2 h3
  show ?thesis by simp
qed

section \<open>Division by zero\<close>

lemma Div_loop_zero_divisor:
  "d \<in> set vs \<Longrightarrow> f_eq_zero env (toFloatRV env d)
   \<Longrightarrow> Div_loop env left vs = RV env (f_zero env)"
  by (induction vs arbitrary: left) (auto simp: Let_def)

lemma evalPipeline_div0:
  "evalPipeline env lit ''5 | div 0'' = Some (Div env [lit ''0'', lit ''5''])"
  by (simp add: evalPipeline_def fields_def arithFuncs_def)

text \<open>
  Claim C9. \<open>Div\<close> is a total function, and it returns \<open>float64(0)\<close> whenever one of the
  operands before the last coerces to a float that equals zero. The placeholder \<open>5 / 0\<close>
  is preprocessed to \<open>5 | div 0\<close>, which evaluates to \<open>float64(0)\<close> when the literal \<open>0\<close>
  coerces to zero.
\<close>

theorem Div_by_zero_gives_zero:
  assumes "d \<in> set (butlast vals)" and "f_eq_zero env (toFloatRV env d)"
    and "f_eq_zero env (toFloatRV env (lit ''0''))"
  shows "Div env vals = RV env (f_zero env)
       \<and> Preprocessor ''{{ 5 / 0 }}'' = Some ''{{ 5 | div 0 }}''
       \<and> evalPipeline env lit ''5 | div 0'' = Some (RV env (f_zero env))"
proof -
  from assms(1) have "vals \<noteq> []" by auto
  with assms(1,2) have general: "Div env vals = RV env (f_zero env)"
    by (simp add: Div_def Div_loop_zero_divisor)
  have generated: "Preprocessor ''{{ 5 / 0 }}'' = Some ''{{ 5 | div 0 }}''"
    by code_simp
  have "Div env [lit ''0'', lit ''5''] = RV env (f_zero env)"
    using assms(3) by (simp add: Div_def)
  then have "evalPipeline env lit ''5 | div 0'' = Some (RV env (f_zero env))"
    by (simp add: evalPipeline_div0)
  with general generated show ?thesis by simp
qed

theorem Div_by_zero_gives_zero_witness:
  "(0::rat) \<in> set (butlast [0, 7, 5]) \<and> f_eq_zero exact_env (toFloatRV exact_env 0)
   \<and> f_eq_zero exact_env (toFloatRV exact_env (decimalValue ''0''))
   \<and> Div exact_env [0, 7, 5] = 0
   \<and> evalPipeline exact_env decimalValue ''5 | div 0'' = Some 0"
proof -
  have h1: "(0::rat) \<in> set (butlast [0, 7, 5])" by simp
  have h2: "f_eq_zero exact_env (toFloatRV exact_env 0)" by (simp add: exact_env_def)
  have h3: "f_eq_zero exact_env (toFloatRV exact_env (decimalValue ''0''))"
    by (simp add: exact_env_def decimalValue_def digitsValue_def)
  have z: "RV exact_env (f_zero exact_env) = 0" by (simp add: exact_env_def)
  from Div_by_zero_gives_zero [of 0 "[0, 7, 5]" exact_env decimalValue, OF h1 h2 h3] h1 h2 h3 z
  show ?thesis by simp
qed

section \<open>An opening marker that is never closed\<close>

text \<open>
  What the branch for a marker without a closing one does. Let the template be \<open>A\<close>, then
  \<open>{{\<close>, then a text \<open>R\<close> in which \<open>}}\<close> does not occur. The preprocessor returns on it
  exactly when it returns on \<open>A\<close> alone, and then its output is the output for \<open>A\<close>
  followed by \<open>{{\<close> and \<open>R\<close> as they are.
\<close>

lemma unclosed_marker_copied_verbatim:
  assumes "strIndex R ''}}'' = None"
  shows "Preprocessor (A @ ''{{'' @ R)
       = map_option (\<lambda>written. written @ ''{{'' @ R) (Preprocessor A)"
  unfolding Preprocessor_def by (rule Preprocessor_from_unclosed [OF assms])

lemma unclosed_marker_copied_verbatim_example:
  "strIndex '' c }'' ''}}'' = None
   \<and> Preprocessor ''a {{ 1 + 2 }} b '' = Some ''a {{ 1 | add 2 }} b ''
   \<and> Preprocessor (''a {{ 1 + 2 }} b '' @ ''{{'' @ '' c }'') = Some ''a {{ 1 | add 2 }} b {{ c }''"
proof -
  have h: "strIndex '' c }'' ''}}'' = None" by code_simp
  have p: "Preprocessor ''a {{ 1 + 2 }} b '' = Some ''a {{ 1 | add 2 }} b ''" by code_simp
  from unclosed_marker_copied_verbatim [OF h, of "''a {{ 1 + 2 }} b ''"] h p
  show ?thesis by simp
qed

text \<open>
  Claim C10. The claim says that the preprocessor terminates normally on every template
  with an opening marker that is never closed. On the template \<open>{{$+1}}{{ x\<close> it does
  not return: the last \<open>{{\<close> has no \<open>}}\<close> after it, but the placeholder before it sends a
  \<open>$\<close> to the lexer, whose loop never ends there, so nothing is copied. The branch for the
  unclosed marker is as the claim says (the lemma above); the defect is the lexer's.
\<close>

theorem unclosed_marker_after_hanging_placeholder:
  "Preprocessor (''{{$+1}}'' @ ''{{'' @ '' x'') = None"
proof -
  have "replaceVars (TrimSpace ''$+1'') = ''$+1''" by code_simp
  moreover have "ContainsAny ''$+1'' ''+-*/><=!&|?:''" by code_simp
  ultimately have conv: "convertPlaceholder ''$+1'' = None"
    by (rule convertPlaceholder_dollar)
  have o: "strIndex ''{{$+1}}{{ x'' ''{{'' = Some 0" by code_simp
  have c: "strIndex (drop 0 ''{{$+1}}{{ x'') ''}}'' = Some 5" by code_simp
  have sl: "slice ''{{$+1}}{{ x'' (0 + 2) (0 + 5) = ''$+1''" by code_simp
  from Preprocessor_from_placeholder [OF o c] conv sl show ?thesis
    by (simp add: Preprocessor_def)
qed

section \<open>A single binary expression\<close>













end
